theory Spec2Isabelle
  imports Main "HOL-Library.Sublist"
begin

section \<open>The HTTP responder (09/app.py)\<close>

text \<open>
  A Python \<open>str\<close> is modelled as a \<open>string\<close> whose characters are the code points
  below 256; the process environment is a partial map from variable names to values.
  \<open>os.getenv(key, default)\<close> returns the default only when the variable is unset: a variable
  set to the empty string yields the empty string.
\<close>

type_synonym environ = "string \<rightharpoonup> string"

definition getenv :: "environ \<Rightarrow> string \<Rightarrow> string \<Rightarrow> string" where
  "getenv env key dflt = (case env key of None \<Rightarrow> dflt | Some v \<Rightarrow> v)"

text \<open>
  The two module-level globals of app.py, assigned once when the module is executed:
  \<^verbatim>\<open>name = os.getenv("NAME", "service1")\<close> and
  \<^verbatim>\<open>cluster_name = os.getenv("CLUSTER", "cluster1")\<close>.
\<close>

record globals =
  name :: string
  cluster_name :: string

definition startup :: "environ \<Rightarrow> globals" where
  "startup env =
     \<lparr>name = getenv env ''NAME'' ''service1'',
      cluster_name = getenv env ''CLUSTER'' ''cluster1''\<rparr>"

text \<open>The two view functions. \<open>cluster\<close> is the f-string of the source written as a concatenation.\<close>

definition hello :: "globals \<Rightarrow> string" where
  "hello g = ''hello''"

definition cluster :: "globals \<Rightarrow> string" where
  "cluster g = ''This is '' @ name g @ '' in cluster '' @ cluster_name g"

text \<open>
  The routes registered by \<^verbatim>\<open>@app.route\<close>, in registration order. A view that returns a
  string gives a response with status 200 and that string as body; a path with no rule
  is answered by the framework's own not-found handling, the value \<open>None\<close> here.
\<close>

record response =
  status_code :: nat
  data :: string

definition url_map :: "(string \<times> (globals \<Rightarrow> string)) list" where
  "url_map = [(''/'', hello), (''/cluster'', cluster)]"

definition get :: "globals \<Rightarrow> string \<Rightarrow> response option" where
  "get g path =
     (case map_of url_map path of
        None \<Rightarrow> None
      | Some view \<Rightarrow> Some \<lparr>status_code = 200, data = view g\<rparr>)"

text \<open>
  The running process: its environment, which may change after start, and the globals
  computed at start. A request is answered from the globals alone.
\<close>

record process =
  os_environ :: environ
  app_globals :: globals

datatype event = Request string | Putenv string string | Unsetenv string

definition boot :: "environ \<Rightarrow> process" where
  "boot env = \<lparr>os_environ = env, app_globals = startup env\<rparr>"

fun step :: "event \<Rightarrow> process \<Rightarrow> response option \<times> process" where
  "step (Request path) p = (get (app_globals p) path, p)"
| "step (Putenv k v) p = (None, p\<lparr>os_environ := (os_environ p)(k \<mapsto> v)\<rparr>)"
| "step (Unsetenv k) p = (None, p\<lparr>os_environ := (os_environ p)(k := None)\<rparr>)"

fun run_events :: "event list \<Rightarrow> process \<Rightarrow> process" where
  "run_events [] p = p"
| "run_events (e # es) p = run_events es (snd (step e p))"

section \<open>Substring test and the regular expression of the end-to-end check\<close>

text \<open>\<^verbatim>\<open>b'hello' in content\<close>: the needle occurs as a contiguous block.\<close>

fun contains :: "string \<Rightarrow> string \<Rightarrow> bool" where
  "contains needle [] = (needle = [])"
| "contains needle (c # s) = (prefix needle (c # s) \<or> contains needle s)"

text \<open>
  \<^verbatim>\<open>\w\<close> on a \<open>str\<close> pattern: the alphanumeric code points and the underscore. Below 256
  these are the ASCII digits and letters, the underscore, and the Latin-1 letters and
  numeric signs.
\<close>

definition is_word :: "char \<Rightarrow> bool" where
  "is_word c =
     (let n = (of_char c :: nat) in
        (48 \<le> n \<and> n \<le> 57) \<or> (65 \<le> n \<and> n \<le> 90) \<or> n = 95 \<or> (97 \<le> n \<and> n \<le> 122) \<or>
        n = 170 \<or> n = 178 \<or> n = 179 \<or> n = 181 \<or> n = 185 \<or> n = 186 \<or>
        (188 \<le> n \<and> n \<le> 190) \<or> (192 \<le> n \<and> n \<le> 214) \<or> (216 \<le> n \<and> n \<le> 246) \<or>
        248 \<le> n)"

text \<open>
  The pattern \<^verbatim>\<open>This is (\w+) in cluster (\w+)\<close> as a sequence of literal pieces and
  \<^verbatim>\<open>(\w+)\<close> groups. \<open>re_match\<close> is \<^verbatim>\<open>re.match(pattern, s) is not None\<close>: the match
  starts at the first character and need not reach the end of the string. A group takes
  at least one word character, prefers to take more, and gives characters back when the
  rest of the pattern fails.
\<close>

datatype re = Literal string | Word_plus

fun word_plus :: "(string \<Rightarrow> bool) \<Rightarrow> string \<Rightarrow> bool" where
  "word_plus k [] = False"
| "word_plus k (c # s) = (is_word c \<and> (word_plus k s \<or> k s))"

primrec re_match :: "re list \<Rightarrow> string \<Rightarrow> bool" where
  "re_match [] s = True"
| "re_match (r # rs) s =
     (case r of
        Literal l \<Rightarrow> prefix l s \<and> re_match rs (drop (length l) s)
      | Word_plus \<Rightarrow> word_plus (re_match rs) s)"

definition cluster_pattern :: "re list" where
  "cluster_pattern = [Literal ''This is '', Word_plus, Literal '' in cluster '', Word_plus]"

section \<open>The collaborators of the test harness\<close>

text \<open>
  The tests call the Kubernetes client, \<open>requests\<close>, the YAML loader and the codec of
  \<open>bytes\<close>. None of them is part of the repository, so they are parameters of the model:
  a record of operations on a state \<open>'w\<close> of the outside world, each returning either
  a fault (the exception it raises) or its result. \<open>'m\<close> is the type of a parsed manifest.
  The client's methods \<^verbatim>\<open>create_namespace\<close>, \<^verbatim>\<open>create_namespaced_deployment\<close>, ... are one
  operation indexed by the kind of resource, with the namespace argument \<open>None\<close> for a
  namespace, which has none.
\<close>

datatype fault = ConnectionRefused | ResourceNotFound | AlreadyExists | OtherFault string

datatype failure = AssertionError | Fault fault

datatype kind = Namespace | Deployment | Service | Ingress

record metadata =
  metadata_name :: "string option"
  metadata_namespace :: "string option"

record ('m, 'w) externals =
  load_kube_config :: "string option \<Rightarrow> 'w \<Rightarrow> (fault + unit) \<times> 'w"
  open_safe_load :: "string \<Rightarrow> 'w \<Rightarrow> (fault + 'm) \<times> 'w"
  api_create :: "kind \<Rightarrow> string option \<Rightarrow> 'm \<Rightarrow> 'w \<Rightarrow> (fault + metadata) \<times> 'w"
  api_read :: "kind \<Rightarrow> string \<Rightarrow> string option \<Rightarrow> 'w \<Rightarrow> (fault + metadata) \<times> 'w"
  api_delete_namespace :: "string \<Rightarrow> 'w \<Rightarrow> (fault + unit) \<times> 'w"
  requests_get :: "string \<Rightarrow> 'w \<Rightarrow> (fault + string) \<times> 'w"
  bytes_decode :: "string \<Rightarrow> fault + string"

text \<open>
  A run threads the world through the calls and keeps the list of calls made, in order.
  A function of the harness either returns or raises: an assertion error or the fault of
  a call, which nothing in the source catches.
\<close>

datatype 'm call =
    LoadKubeConfig "string option"
  | LoadYaml string
  | Create kind "string option" 'm
  | Read kind string "string option"
  | DeleteNamespace string
  | HttpGet string

record ('m, 'w) run =
  world :: 'w
  trace :: "'m call list"

type_synonym ('m, 'w, 'a) action = "('m, 'w) run \<Rightarrow> (failure + 'a) \<times> ('m, 'w) run"

definition invoke :: "'m call \<Rightarrow> ('w \<Rightarrow> (fault + 'a) \<times> 'w) \<Rightarrow> ('m, 'w, 'a) action" where
  "invoke c f s =
     (case f (world s) of
        (r, w) \<Rightarrow>
          ((case r of Inl e \<Rightarrow> Inl (Fault e) | Inr a \<Rightarrow> Inr a),
           \<lparr>world = w, trace = trace s @ [c]\<rparr>))"

definition then_do :: "('m, 'w, 'a) action \<Rightarrow> ('a \<Rightarrow> ('m, 'w, 'b) action) \<Rightarrow> ('m, 'w, 'b) action" where
  "then_do m f s = (case m s of (Inl e, s1) \<Rightarrow> (Inl e, s1) | (Inr a, s1) \<Rightarrow> f a s1)"

definition return :: "'a \<Rightarrow> ('m, 'w, 'a) action" where
  "return a s = (Inr a, s)"

definition assert_that :: "bool \<Rightarrow> ('m, 'w, unit) action" where
  "assert_that b s = ((if b then Inr () else Inl AssertionError), s)"

definition kube_config :: "('m, 'w) externals \<Rightarrow> string option \<Rightarrow> ('m, 'w, unit) action" where
  "kube_config X ctx = invoke (LoadKubeConfig ctx) (load_kube_config X ctx)"

definition load_fixture :: "('m, 'w) externals \<Rightarrow> string \<Rightarrow> ('m, 'w, 'm) action" where
  "load_fixture X file = invoke (LoadYaml file) (open_safe_load X file)"

definition create_namespace :: "('m, 'w) externals \<Rightarrow> 'm \<Rightarrow> ('m, 'w, metadata) action" where
  "create_namespace X body = invoke (Create Namespace None body) (api_create X Namespace None body)"

definition read_namespace :: "('m, 'w) externals \<Rightarrow> string \<Rightarrow> ('m, 'w, metadata) action" where
  "read_namespace X nm = invoke (Read Namespace nm None) (api_read X Namespace nm None)"

definition delete_namespace :: "('m, 'w) externals \<Rightarrow> string \<Rightarrow> ('m, 'w, unit) action" where
  "delete_namespace X nm = invoke (DeleteNamespace nm) (api_delete_namespace X nm)"

definition create_namespaced :: "('m, 'w) externals \<Rightarrow> kind \<Rightarrow> 'm \<Rightarrow> string \<Rightarrow> ('m, 'w, metadata) action" where
  "create_namespaced X k body ns = invoke (Create k (Some ns) body) (api_create X k (Some ns) body)"

definition read_namespaced :: "('m, 'w) externals \<Rightarrow> kind \<Rightarrow> string \<Rightarrow> string \<Rightarrow> ('m, 'w, metadata) action" where
  "read_namespaced X k nm ns = invoke (Read k nm (Some ns)) (api_read X k nm (Some ns))"

definition http_get :: "('m, 'w) externals \<Rightarrow> string \<Rightarrow> ('m, 'w, string) action" where
  "http_get X url = invoke (HttpGet url) (requests_get X url)"

definition decode :: "('m, 'w) externals \<Rightarrow> string \<Rightarrow> ('m, 'w, string) action" where
  "decode X content s =
     ((case bytes_decode X content of Inl e \<Rightarrow> Inl (Fault e) | Inr d \<Rightarrow> Inr d), s)"

section \<open>The test runner\<close>

text \<open>
  What pytest does with a test module, as far as these modules use it. Importing the
  module runs its top-level statements and yields its classes and functions in the order
  of the file; an exception there is a collection error and no test of the module runs.
  Classes named \<^verbatim>\<open>Test...\<close> and functions and methods named \<^verbatim>\<open>test...\<close> are collected.
  Of a class, \<^verbatim>\<open>setup_class\<close> runs before its first test and \<^verbatim>\<open>teardown_class\<close> after
  its last one, when the class defines them; a class marked to be skipped has each of
  its tests reported as skipped and none of its code run. Each test is run in turn from
  the state its predecessor left, and an exception it raises fails that test only. An
  exception of \<^verbatim>\<open>setup_class\<close> is the error of every test of the class, none of which
  is then run; one of \<^verbatim>\<open>teardown_class\<close> is an error entry after the outcomes of the
  tests. A function of the module that is neither named \<^verbatim>\<open>test...\<close> nor one of the
  module's own hooks (\<^verbatim>\<open>setup_module\<close>, \<^verbatim>\<open>teardown_module\<close>, \<^verbatim>\<open>setup_function\<close>,
  \<^verbatim>\<open>teardown_function\<close>, none of which a module here defines) is never called by the
  runner.
\<close>

datatype outcome = Passed | Failed failure | Skipped string | Error failure

record ('m, 'w) test_class =
  skip_reason :: "string option"
  methods :: "(string \<times> ('m, 'w, unit) action) list"

datatype ('m, 'w) item =
    Class string "('m, 'w) test_class"
  | Function string "('m, 'w, unit) action"

datatype result = CollectionError failure | Ran "(string \<times> outcome) list"

definition verdict :: "failure + unit \<Rightarrow> outcome" where
  "verdict r = (case r of Inl e \<Rightarrow> Failed e | Inr u \<Rightarrow> Passed)"

definition test_names :: "(string \<times> 'f) list \<Rightarrow> string list" where
  "test_names ms = filter (prefix ''test'') (map fst ms)"

definition run_hook :: "string \<Rightarrow> (string \<times> ('m, 'w, unit) action) list \<Rightarrow> ('m, 'w, unit) action" where
  "run_hook h ms s = (case map_of ms h of None \<Rightarrow> (Inr (), s) | Some f \<Rightarrow> f s)"

fun run_methods ::
  "(string \<times> ('m, 'w, unit) action) list \<Rightarrow> ('m, 'w) run \<Rightarrow> (string \<times> outcome) list \<times> ('m, 'w) run"
where
  "run_methods [] s = ([], s)"
| "run_methods ((n, f) # ms) s =
     (if prefix ''test'' n
      then (case f s of
              (r, s1) \<Rightarrow> (case run_methods ms s1 of (os, s2) \<Rightarrow> ((n, verdict r) # os, s2)))
      else run_methods ms s)"

definition run_class :: "('m, 'w) test_class \<Rightarrow> ('m, 'w) run \<Rightarrow> (string \<times> outcome) list \<times> ('m, 'w) run" where
  "run_class c s =
     (case skip_reason c of
        Some reason \<Rightarrow> (map (\<lambda>n. (n, Skipped reason)) (test_names (methods c)), s)
      | None \<Rightarrow>
          (case run_hook ''setup_class'' (methods c) s of
             (Inl e, s1) \<Rightarrow> (map (\<lambda>n. (n, Error e)) (test_names (methods c)), s1)
           | (Inr u, s1) \<Rightarrow>
               (case run_methods (methods c) s1 of
                  (os, s2) \<Rightarrow>
                    (case run_hook ''teardown_class'' (methods c) s2 of
                       (Inl e, s3) \<Rightarrow> (os @ [(''teardown_class'', Error e)], s3)
                     | (Inr u, s3) \<Rightarrow> (os, s3)))))"

fun run_items :: "('m, 'w) item list \<Rightarrow> ('m, 'w) run \<Rightarrow> (string \<times> outcome) list \<times> ('m, 'w) run" where
  "run_items [] s = ([], s)"
| "run_items (Class n c # its) s =
     (if prefix ''Test'' n
      then (case run_class c s of
              (os, s1) \<Rightarrow> (case run_items its s1 of (os', s2) \<Rightarrow> (os @ os', s2)))
      else run_items its s)"
| "run_items (Function n f # its) s =
     (if prefix ''test'' n
      then (case f s of
              (r, s1) \<Rightarrow> (case run_items its s1 of (os, s2) \<Rightarrow> ((n, verdict r) # os, s2)))
      else run_items its s)"

definition run_module :: "('m, 'w, ('m, 'w) item list) action \<Rightarrow> ('m, 'w) run \<Rightarrow> result \<times> ('m, 'w) run" where
  "run_module m s =
     (case m s of
        (Inl e, s1) \<Rightarrow> (CollectionError e, s1)
      | (Inr its, s1) \<Rightarrow> (case run_items its s1 of (os, s2) \<Rightarrow> (Ran os, s2)))"

text \<open>
  \<^verbatim>\<open>pytest.mark.skipif(condition, reason=...)\<close> on a class: the condition is evaluated
  when the module is imported.
\<close>

definition skipif :: "bool \<Rightarrow> string \<Rightarrow> ('m, 'w) test_class \<Rightarrow> ('m, 'w) test_class" where
  "skipif condition reason c = (if condition then c\<lparr>skip_reason := Some reason\<rparr> else c)"

text \<open>
  conftest.py: the two command-line options, each \<open>None\<close> when not given, kept in the
  module-level global \<^verbatim>\<open>option\<close> by \<^verbatim>\<open>pytest_configure\<close>; the fixture \<^verbatim>\<open>endpoint\<close>
  returns the first.
\<close>

record config_option =
  opt_endpoint :: "string option"
  opt_context :: "string option"

definition endpoint_fixture :: "config_option \<Rightarrow> string option" where
  "endpoint_fixture option = opt_endpoint option"

section \<open>The provisioning tests (03, 04 and gitops-flask-kubernetes test_smoke.py)\<close>

abbreviation "create_namespaced_deployment X \<equiv> create_namespaced X Deployment"
abbreviation "read_namespaced_deployment X \<equiv> read_namespaced X Deployment"
abbreviation "create_namespaced_service X \<equiv> create_namespaced X Service"
abbreviation "read_namespaced_service X \<equiv> read_namespaced X Service"
abbreviation "create_namespaced_ingress X \<equiv> create_namespaced X Ingress"
abbreviation "read_namespaced_ingress X \<equiv> read_namespaced X Ingress"

text \<open>
  \<^verbatim>\<open>setup_class\<close> only constructs the client objects the methods call; it makes no call
  to the cluster. \<^verbatim>\<open>"x" == result.metadata.name\<close> is false when the field is \<open>None\<close>.
  The three files define \<^verbatim>\<open>test_create_namespace\<close> with the same body, and 03 and 04
  the same \<^verbatim>\<open>test_create_deployment\<close> and \<^verbatim>\<open>teardown_class\<close>.
\<close>

definition setup_class :: "('m, 'w, unit) action" where
  "setup_class = return ()"

definition test_create_namespace :: "('m, 'w) externals \<Rightarrow> ('m, 'w, unit) action" where
  "test_create_namespace X =
     then_do (load_fixture X ''namespace.yaml'') (\<lambda>namespace.
     then_do (create_namespace X namespace) (\<lambda>response.
     then_do (read_namespace X ''test-namespace'') (\<lambda>result.
     assert_that (Some ''test-namespace'' = metadata_name result))))"

definition test_create_deployment :: "('m, 'w) externals \<Rightarrow> ('m, 'w, unit) action" where
  "test_create_deployment X =
     then_do (load_fixture X ''deployment.yaml'') (\<lambda>deployment.
     then_do (create_namespaced_deployment X deployment ''test-namespace'') (\<lambda>response.
     then_do (read_namespaced_deployment X ''flask'' ''test-namespace'') (\<lambda>result.
     then_do (assert_that (Some ''flask'' = metadata_name result)) (\<lambda>u.
     assert_that (Some ''test-namespace'' = metadata_namespace result)))))"

definition test_create_service :: "('m, 'w) externals \<Rightarrow> ('m, 'w, unit) action" where
  "test_create_service X =
     then_do (load_fixture X ''service.yaml'') (\<lambda>service.
     then_do (create_namespaced_service X service ''test-namespace'') (\<lambda>response.
     then_do (read_namespaced_service X ''flask'' ''test-namespace'') (\<lambda>result.
     then_do (assert_that (Some ''flask'' = metadata_name result)) (\<lambda>u.
     assert_that (Some ''test-namespace'' = metadata_namespace result)))))"

definition test_create_ingress :: "('m, 'w) externals \<Rightarrow> ('m, 'w, unit) action" where
  "test_create_ingress X =
     then_do (load_fixture X ''ingress.yaml'') (\<lambda>ingress.
     then_do (create_namespaced_ingress X ingress ''test-namespace'') (\<lambda>response.
     then_do (read_namespaced_ingress X ''flask'' ''test-namespace'') (\<lambda>result.
     then_do (assert_that (Some ''flask'' = metadata_name result)) (\<lambda>u.
     assert_that (Some ''test-namespace'' = metadata_namespace result)))))"

definition teardown_class :: "('m, 'w) externals \<Rightarrow> ('m, 'w, unit) action" where
  "teardown_class X = delete_namespace X ''test-namespace''"

definition TestSmoke_03 :: "('m, 'w) externals \<Rightarrow> ('m, 'w) test_class" where
  "TestSmoke_03 X =
     \<lparr>skip_reason = None,
      methods =
        [(''setup_class'', setup_class),
         (''test_create_namespace'', test_create_namespace X),
         (''test_create_deployment'', test_create_deployment X),
         (''teardown_class'', teardown_class X)]\<rparr>"

definition test_smoke_03 :: "('m, 'w) externals \<Rightarrow> ('m, 'w, ('m, 'w) item list) action" where
  "test_smoke_03 X =
     then_do (kube_config X (Some ''kind-cluster1'')) (\<lambda>u.
     return [Class ''TestSmoke'' (TestSmoke_03 X)])"

definition TestSmoke_04 :: "('m, 'w) externals \<Rightarrow> ('m, 'w) test_class" where
  "TestSmoke_04 X =
     \<lparr>skip_reason = None,
      methods =
        [(''setup_class'', setup_class),
         (''test_create_namespace'', test_create_namespace X),
         (''test_create_deployment'', test_create_deployment X),
         (''test_create_service'', test_create_service X),
         (''test_create_ingress'', test_create_ingress X),
         (''teardown_class'', teardown_class X)]\<rparr>"

definition test_smoke_04 :: "('m, 'w) externals \<Rightarrow> ('m, 'w, ('m, 'w) item list) action" where
  "test_smoke_04 X =
     then_do (kube_config X (Some ''kind-cluster1'')) (\<lambda>u.
     return [Class ''TestSmoke'' (TestSmoke_04 X)])"

text \<open>
  In gitops-flask-kubernetes/tests/test_smoke.py the line \<^verbatim>\<open>def teardown_class(self):\<close>
  starts in column 0: the function belongs to the module, not to the class
  \<^verbatim>\<open>TestSmoke\<close>, whose methods are \<^verbatim>\<open>setup_class\<close> and \<^verbatim>\<open>test_create_namespace\<close>.
\<close>

definition TestSmoke_gfk :: "('m, 'w) externals \<Rightarrow> ('m, 'w) test_class" where
  "TestSmoke_gfk X =
     \<lparr>skip_reason = None,
      methods =
        [(''setup_class'', setup_class),
         (''test_create_namespace'', test_create_namespace X)]\<rparr>"

definition test_smoke_gfk :: "('m, 'w) externals \<Rightarrow> ('m, 'w, ('m, 'w) item list) action" where
  "test_smoke_gfk X =
     then_do (kube_config X (Some ''kind-cluster1'')) (\<lambda>u.
     return [Class ''TestSmoke'' (TestSmoke_gfk X),
             Function ''teardown_class'' (teardown_class X)])"

section \<open>The verification-only tests (06 and 09 test_gitops.py)\<close>

definition test_flask_application_namespace :: "('m, 'w) externals \<Rightarrow> ('m, 'w, unit) action" where
  "test_flask_application_namespace X =
     then_do (read_namespace X ''test-namespace'') (\<lambda>namespace.
     assert_that (Some ''test-namespace'' = metadata_name namespace))"

definition test_flask_application_deployment :: "('m, 'w) externals \<Rightarrow> ('m, 'w, unit) action" where
  "test_flask_application_deployment X =
     then_do (read_namespaced_deployment X ''flask'' ''test-namespace'') (\<lambda>deployment.
     then_do (assert_that (Some ''flask'' = metadata_name deployment)) (\<lambda>u.
     assert_that (Some ''test-namespace'' = metadata_namespace deployment)))"

definition test_flask_application_service :: "('m, 'w) externals \<Rightarrow> ('m, 'w, unit) action" where
  "test_flask_application_service X =
     then_do (read_namespaced_service X ''flask'' ''test-namespace'') (\<lambda>service.
     then_do (assert_that (Some ''flask'' = metadata_name service)) (\<lambda>u.
     assert_that (Some ''test-namespace'' = metadata_namespace service)))"

definition test_flask_application_ingress :: "('m, 'w) externals \<Rightarrow> ('m, 'w, unit) action" where
  "test_flask_application_ingress X =
     then_do (read_namespaced_ingress X ''flask'' ''test-namespace'') (\<lambda>ingress.
     then_do (assert_that (Some ''flask'' = metadata_name ingress)) (\<lambda>u.
     assert_that (Some ''test-namespace'' = metadata_namespace ingress)))"

definition TestGitOps :: "('m, 'w) externals \<Rightarrow> ('m, 'w) test_class" where
  "TestGitOps X =
     \<lparr>skip_reason = None,
      methods =
        [(''setup_class'', setup_class),
         (''test_flask_application_namespace'', test_flask_application_namespace X),
         (''test_flask_application_deployment'', test_flask_application_deployment X),
         (''test_flask_application_service'', test_flask_application_service X),
         (''test_flask_application_ingress'', test_flask_application_ingress X)]\<rparr>"

definition test_gitops_06 :: "('m, 'w) externals \<Rightarrow> ('m, 'w, ('m, 'w) item list) action" where
  "test_gitops_06 X =
     then_do (kube_config X (Some ''kind-cluster1'')) (\<lambda>u.
     return [Class ''TestGitOps'' (TestGitOps X)])"

definition test_flask_internal_application_deployment :: "('m, 'w) externals \<Rightarrow> ('m, 'w, unit) action" where
  "test_flask_internal_application_deployment X =
     then_do (read_namespaced_deployment X ''flask-internal'' ''test-namespace'') (\<lambda>deployment.
     then_do (assert_that (Some ''flask-internal'' = metadata_name deployment)) (\<lambda>u.
     assert_that (Some ''test-namespace'' = metadata_namespace deployment)))"

definition test_flask_internal_application_service :: "('m, 'w) externals \<Rightarrow> ('m, 'w, unit) action" where
  "test_flask_internal_application_service X =
     then_do (read_namespaced_service X ''flask-internal'' ''test-namespace'') (\<lambda>service.
     then_do (assert_that (Some ''flask-internal'' = metadata_name service)) (\<lambda>u.
     assert_that (Some ''test-namespace'' = metadata_namespace service)))"

definition test_flask_service2_application_namespace :: "('m, 'w) externals \<Rightarrow> ('m, 'w, unit) action" where
  "test_flask_service2_application_namespace X =
     then_do (read_namespace X ''service2'') (\<lambda>namespace.
     assert_that (Some ''service2'' = metadata_name namespace))"

definition test_flask_service2_application_deployment :: "('m, 'w) externals \<Rightarrow> ('m, 'w, unit) action" where
  "test_flask_service2_application_deployment X =
     then_do (read_namespaced_deployment X ''flask-different-namespace'' ''service2'') (\<lambda>deployment.
     then_do (assert_that (Some ''flask-different-namespace'' = metadata_name deployment)) (\<lambda>u.
     assert_that (Some ''service2'' = metadata_namespace deployment)))"

definition test_flask_service2_application_service :: "('m, 'w) externals \<Rightarrow> ('m, 'w, unit) action" where
  "test_flask_service2_application_service X =
     then_do (read_namespaced_service X ''flask-different-namespace'' ''service2'') (\<lambda>service.
     then_do (assert_that (Some ''flask-different-namespace'' = metadata_name service)) (\<lambda>u.
     assert_that (Some ''service2'' = metadata_namespace service)))"

definition TestGitOpsConditional :: "('m, 'w) externals \<Rightarrow> ('m, 'w) test_class" where
  "TestGitOpsConditional X =
     \<lparr>skip_reason = None,
      methods =
        [(''setup_class'', setup_class),
         (''test_flask_internal_application_deployment'', test_flask_internal_application_deployment X),
         (''test_flask_internal_application_service'', test_flask_internal_application_service X),
         (''test_flask_service2_application_namespace'', test_flask_service2_application_namespace X),
         (''test_flask_service2_application_deployment'', test_flask_service2_application_deployment X),
         (''test_flask_service2_application_service'', test_flask_service2_application_service X)]\<rparr>"

text \<open>
  09/tests/test_gitops.py: the context comes from the command line, and the second class
  carries \<^verbatim>\<open>skipif(option.context in ("kind-cluster2", "kind-cluster3"), ...)\<close>.
\<close>

definition test_gitops_09 ::
  "('m, 'w) externals \<Rightarrow> config_option \<Rightarrow> ('m, 'w, ('m, 'w) item list) action" where
  "test_gitops_09 X option =
     then_do (kube_config X (opt_context option)) (\<lambda>u.
     return
       [Class ''TestGitOps'' (TestGitOps X),
        Class ''TestGitOpsConditional''
          (skipif (opt_context option \<in> set [Some ''kind-cluster2'', Some ''kind-cluster3''])
             ''only deployed on development'' (TestGitOpsConditional X))])"

section \<open>The end-to-end checks (03 and 09 test_end_to_end.py)\<close>

text \<open>
  The fixture value is put into the URL by string formatting, which writes \<open>None\<close> as the
  text "None". The modules make no call when imported.
\<close>

definition format_str :: "string option \<Rightarrow> string" where
  "format_str v = (case v of None \<Rightarrow> ''None'' | Some x \<Rightarrow> x)"

definition test_index :: "('m, 'w) externals \<Rightarrow> string option \<Rightarrow> ('m, 'w, unit) action" where
  "test_index X endpoint =
     then_do (http_get X (''http://'' @ format_str endpoint @ ''/'')) (\<lambda>content.
     assert_that (contains ''hello'' content))"

definition test_cluster :: "('m, 'w) externals \<Rightarrow> string option \<Rightarrow> ('m, 'w, unit) action" where
  "test_cluster X endpoint =
     then_do (http_get X (''http://'' @ format_str endpoint @ ''/cluster'')) (\<lambda>content.
     then_do (decode X content) (\<lambda>data.
     assert_that (re_match cluster_pattern data)))"

definition test_end_to_end_03 ::
  "('m, 'w) externals \<Rightarrow> config_option \<Rightarrow> ('m, 'w, ('m, 'w) item list) action" where
  "test_end_to_end_03 X option = return [Function ''test_index'' (test_index X (endpoint_fixture option))]"

definition test_end_to_end_09 ::
  "('m, 'w) externals \<Rightarrow> config_option \<Rightarrow> ('m, 'w, ('m, 'w) item list) action" where
  "test_end_to_end_09 X option =
     return [Function ''test_index'' (test_index X (endpoint_fixture option)),
             Function ''test_cluster'' (test_cluster X (endpoint_fixture option))]"

section \<open>An example world\<close>

text \<open>
  One instance of the collaborators, on which the theorems below are exercised. The
  cluster is the list of the objects it holds, each a kind, a namespace and a name; a
  manifest is the name of the object it describes. Creating an object that exists, or one
  in a namespace that does not, is a fault, and so is reading or deleting what is not
  there. The kube configuration knows the three contexts of the course and a default
  one. When a responder is deployed it answers at \<^verbatim>\<open>localhost\<close>; otherwise every
  connection is refused. Only ASCII content is decoded.
\<close>

type_synonym objects = "(kind \<times> string option \<times> string) list"

definition sim_create :: "kind \<Rightarrow> string option \<Rightarrow> string \<Rightarrow> objects \<Rightarrow> (fault + metadata) \<times> objects" where
  "sim_create k ns m w =
     (if (k, ns, m) \<in> set w then (Inl AlreadyExists, w)
      else (case ns of
              None \<Rightarrow> (Inr \<lparr>metadata_name = Some m, metadata_namespace = None\<rparr>, (k, ns, m) # w)
            | Some n \<Rightarrow>
                (if (Namespace, None, n) \<in> set w
                 then (Inr \<lparr>metadata_name = Some m, metadata_namespace = Some n\<rparr>, (k, ns, m) # w)
                 else (Inl ResourceNotFound, w))))"

definition sim_read :: "kind \<Rightarrow> string \<Rightarrow> string option \<Rightarrow> objects \<Rightarrow> (fault + metadata) \<times> objects" where
  "sim_read k nm ns w =
     (if (k, ns, nm) \<in> set w
      then (Inr \<lparr>metadata_name = Some nm, metadata_namespace = ns\<rparr>, w)
      else (Inl ResourceNotFound, w))"

definition sim_delete_namespace :: "string \<Rightarrow> objects \<Rightarrow> (fault + unit) \<times> objects" where
  "sim_delete_namespace nm w =
     (if (Namespace, None, nm) \<in> set w
      then (Inr (), filter (\<lambda>(k, ns, m). (k, ns, m) \<noteq> (Namespace, None, nm) \<and> ns \<noteq> Some nm) w)
      else (Inl ResourceNotFound, w))"

definition sim_load_kube_config :: "string option \<Rightarrow> objects \<Rightarrow> (fault + unit) \<times> objects" where
  "sim_load_kube_config ctx w =
     ((if ctx \<in> set [None, Some ''kind-cluster1'', Some ''kind-cluster2'', Some ''kind-cluster3'']
       then Inr () else Inl (OtherFault ''ConfigException'')), w)"

definition sim_open_safe_load :: "string \<Rightarrow> objects \<Rightarrow> (fault + string) \<times> objects" where
  "sim_open_safe_load file w =
     ((if file = ''namespace.yaml'' then Inr ''test-namespace''
       else if file \<in> set [''deployment.yaml'', ''service.yaml'', ''ingress.yaml''] then Inr ''flask''
       else Inl (OtherFault ''FileNotFoundError'')), w)"

definition sim_requests_get :: "globals option \<Rightarrow> string \<Rightarrow> objects \<Rightarrow> (fault + string) \<times> objects" where
  "sim_requests_get deployed url w =
     ((case deployed of
         None \<Rightarrow> Inl ConnectionRefused
       | Some g \<Rightarrow>
           (if prefix ''http://localhost'' url
            then (case get g (drop 16 url) of None \<Rightarrow> Inr ''Not Found'' | Some r \<Rightarrow> Inr (data r))
            else Inl ConnectionRefused)), w)"

definition sim_bytes_decode :: "string \<Rightarrow> fault + string" where
  "sim_bytes_decode b =
     (if list_all (\<lambda>c. (of_char c :: nat) < 128) b then Inr b else Inl (OtherFault ''UnicodeDecodeError''))"

definition sim :: "globals option \<Rightarrow> (string, objects) externals" where
  "sim deployed =
     \<lparr>load_kube_config = sim_load_kube_config,
      open_safe_load = sim_open_safe_load,
      api_create = sim_create,
      api_read = sim_read,
      api_delete_namespace = sim_delete_namespace,
      requests_get = sim_requests_get deployed,
      bytes_decode = sim_bytes_decode\<rparr>"

section \<open>Vocabulary for the properties of runs\<close>

text \<open>
  A test was executed when the runner called it, whatever came of it: it passed or it
  failed. It was not when it was skipped, or when \<^verbatim>\<open>setup_class\<close> failed before it.
\<close>

fun executed :: "outcome \<Rightarrow> bool" where
  "executed Passed = True"
| "executed (Failed e) = True"
| "executed (Skipped r) = False"
| "executed (Error e) = False"

text \<open>
  The calls made by the tests of \<^verbatim>\<open>TestGitOps\<close> and of \<^verbatim>\<open>TestGitOpsConditional\<close>, one
  read each, in the order of the file, and the names of the tests of the second class.
\<close>

definition unconditional_reads :: "'m call list" where
  "unconditional_reads =
     [Read Namespace ''test-namespace'' None,
      Read Deployment ''flask'' (Some ''test-namespace''),
      Read Service ''flask'' (Some ''test-namespace''),
      Read Ingress ''flask'' (Some ''test-namespace'')]"

definition conditional_reads :: "'m call list" where
  "conditional_reads =
     [Read Deployment ''flask-internal'' (Some ''test-namespace''),
      Read Service ''flask-internal'' (Some ''test-namespace''),
      Read Namespace ''service2'' None,
      Read Deployment ''flask-different-namespace'' (Some ''service2''),
      Read Service ''flask-different-namespace'' (Some ''service2'')]"

definition conditional_tests :: "string list" where
  "conditional_tests =
     [''test_flask_internal_application_deployment'', ''test_flask_internal_application_service'',
      ''test_flask_service2_application_namespace'', ''test_flask_service2_application_deployment'',
      ''test_flask_service2_application_service'']"

section \<open>Properties of the responder\<close>

lemma get_cluster: "get g ''/cluster'' = Some \<lparr>status_code = 200, data = cluster g\<rparr>"
  by (simp add: get_def url_map_def)

lemma get_index: "get g ''/'' = Some \<lparr>status_code = 200, data = ''hello''\<rparr>"
  by (simp add: get_def url_map_def hello_def)

text \<open>
  C1: with NAME and CLUSTER both unset in the environment the process starts in, a GET
  request to /cluster is answered with status 200 and the body
  "This is service1 in cluster cluster1", whatever else the environment holds.
\<close>

theorem cluster_default_identity:
  assumes "env ''NAME'' = None" and "env ''CLUSTER'' = None"
  shows "get (startup env) ''/cluster'' =
           Some \<lparr>status_code = 200, data = ''This is service1 in cluster cluster1''\<rparr>"
  using assms by (simp add: get_cluster cluster_def startup_def getenv_def)

theorem cluster_default_identity_witness:
  "get (startup Map.empty) ''/cluster'' =
     Some \<lparr>status_code = 200, data = ''This is service1 in cluster cluster1''\<rparr>"
  using cluster_default_identity [of Map.empty] by simp

text \<open>
  C6: whatever the environment at start (NAME and CLUSTER set to anything, or unset), a
  GET request to / is answered with status 200 and a body that contains "hello".
\<close>

theorem index_contains_hello:
  "\<exists>b. get (startup env) ''/'' = Some \<lparr>status_code = 200, data = b\<rparr> \<and> contains ''hello'' b"
  by (simp add: get_index)

theorem index_contains_hello_witness:
  "\<exists>b. get (startup [''NAME'' \<mapsto> '''', ''CLUSTER'' \<mapsto> ''x y'']) ''/'' =
          Some \<lparr>status_code = 200, data = b\<rparr> \<and> contains ''hello'' b"
  using index_contains_hello [of "[''NAME'' \<mapsto> '''', ''CLUSTER'' \<mapsto> ''x y'']"] by simp

lemma step_globals: "app_globals (snd (step e p)) = app_globals p"
  by (cases e) simp_all

lemma run_events_globals: "app_globals (run_events es p) = app_globals p"
  by (induction es arbitrary: p) (simp_all add: step_globals)

text \<open>
  C8: the responder is a function of the environment at start. After any sequence of
  earlier requests and of changes to the environment, a GET request is answered as the
  globals computed at start dictate, so two requests to the same route get the same
  answer whatever preceded each of them; and a request leaves the state of the process
  as it found it.
\<close>

theorem responder_pure:
  "fst (step (Request path) (run_events es (boot env))) = get (startup env) path \<and>
   fst (step (Request path) (run_events es (boot env))) =
     fst (step (Request path) (run_events es' (boot env))) \<and>
   snd (step (Request path) p) = p"
  by (simp add: run_events_globals boot_def)

theorem responder_pure_witness:
  "fst (step (Request ''/cluster'')
         (run_events [Request ''/'', Putenv ''NAME'' ''other'', Unsetenv ''CLUSTER'', Request ''/cluster'']
            (boot [''NAME'' \<mapsto> ''svc''])))
     = Some \<lparr>status_code = 200, data = ''This is svc in cluster cluster1''\<rparr>"
  using responder_pure [of "''/cluster''"
      "[Request ''/'', Putenv ''NAME'' ''other'', Unsetenv ''CLUSTER'', Request ''/cluster'']"
      "[''NAME'' \<mapsto> ''svc'']" "[]" "boot Map.empty"]
  by (simp add: get_cluster cluster_def startup_def getenv_def)

section \<open>The cluster body and the regular expression\<close>

lemma word_plus_run:
  "s \<noteq> [] \<Longrightarrow> list_all is_word s \<Longrightarrow> k t \<Longrightarrow> word_plus k (s @ t)"
proof (induction s)
  case Nil
  then show ?case by simp
next
  case (Cons c s)
  then show ?case by (cases s) auto
qed

text \<open>
  C2, as amended: when NAME is set to a non-empty run of word characters (letters,
  digits, underscore) and CLUSTER to a value that begins with a word character, the body
  of GET /cluster matches the pattern "This is (\w+) in cluster (\w+)" from its start.
\<close>

theorem cluster_body_matches_for_word_values:
  assumes "env ''NAME'' = Some n" and "env ''CLUSTER'' = Some (c # cs)"
    and "n \<noteq> []" and "list_all is_word n" and "is_word c"
  shows "\<exists>b. get (startup env) ''/cluster'' = Some \<lparr>status_code = 200, data = b\<rparr> \<and>
             re_match cluster_pattern b"
proof -
  have "word_plus (re_match []) (c # cs)"
    using assms(5) by simp
  then have "word_plus (re_match [Literal '' in cluster '', Word_plus]) (n @ '' in cluster '' @ c # cs)"
    using assms(3,4) by (intro word_plus_run) simp_all
  then have "re_match cluster_pattern (cluster (startup env))"
    using assms(1,2) by (simp add: cluster_pattern_def cluster_def startup_def getenv_def)
  then show ?thesis
    by (simp add: get_cluster)
qed

theorem cluster_body_matches_for_word_values_witness:
  "\<exists>b. get (startup [''NAME'' \<mapsto> ''service2'', ''CLUSTER'' \<mapsto> ''cluster-2'']) ''/cluster'' =
          Some \<lparr>status_code = 200, data = b\<rparr> \<and> re_match cluster_pattern b"
  using cluster_body_matches_for_word_values
    [of "[''NAME'' \<mapsto> ''service2'', ''CLUSTER'' \<mapsto> ''cluster-2'']" "''service2''" "CHR ''c''" "''luster-2''"]
  by (simp add: is_word_def)

text \<open>
  C2 as stated fails: with NAME set to "flask-internal" and CLUSTER to "cluster1", both
  non-empty, the body is "This is flask-internal in cluster cluster1", which the pattern
  does not match, the hyphen not being a word character.
\<close>

theorem cluster_body_hyphen_counterexample:
  "[''NAME'' \<mapsto> ''flask-internal'', ''CLUSTER'' \<mapsto> ''cluster1''] ''NAME'' = Some ''flask-internal'' \<and>
   [''NAME'' \<mapsto> ''flask-internal'', ''CLUSTER'' \<mapsto> ''cluster1''] ''CLUSTER'' = Some ''cluster1'' \<and>
   ''flask-internal'' \<noteq> [] \<and> ''cluster1'' \<noteq> [] \<and>
   get (startup [''NAME'' \<mapsto> ''flask-internal'', ''CLUSTER'' \<mapsto> ''cluster1'']) ''/cluster'' =
     Some \<lparr>status_code = 200, data = ''This is flask-internal in cluster cluster1''\<rparr> \<and>
   \<not> re_match cluster_pattern ''This is flask-internal in cluster cluster1''"
  by (simp add: get_cluster cluster_pattern_def cluster_def startup_def getenv_def is_word_def)

section \<open>The verification-only tests and the skipped group\<close>

lemma executed_verdict: "executed (verdict r)"
  by (cases r) (simp_all add: verdict_def)

lemma trace_read_test:
  "trace (snd (test_flask_application_namespace X s)) = trace s @ [Read Namespace ''test-namespace'' None]"
  "trace (snd (test_flask_application_deployment X s)) = trace s @ [Read Deployment ''flask'' (Some ''test-namespace'')]"
  "trace (snd (test_flask_application_service X s)) = trace s @ [Read Service ''flask'' (Some ''test-namespace'')]"
  "trace (snd (test_flask_application_ingress X s)) = trace s @ [Read Ingress ''flask'' (Some ''test-namespace'')]"
  "trace (snd (test_flask_internal_application_deployment X s)) = trace s @ [Read Deployment ''flask-internal'' (Some ''test-namespace'')]"
  "trace (snd (test_flask_internal_application_service X s)) = trace s @ [Read Service ''flask-internal'' (Some ''test-namespace'')]"
  "trace (snd (test_flask_service2_application_namespace X s)) = trace s @ [Read Namespace ''service2'' None]"
  "trace (snd (test_flask_service2_application_deployment X s)) = trace s @ [Read Deployment ''flask-different-namespace'' (Some ''service2'')]"
  "trace (snd (test_flask_service2_application_service X s)) = trace s @ [Read Service ''flask-different-namespace'' (Some ''service2'')]"
  by (simp_all add: test_flask_application_namespace_def test_flask_application_deployment_def
    test_flask_application_service_def test_flask_application_ingress_def
    test_flask_internal_application_deployment_def test_flask_internal_application_service_def
    test_flask_service2_application_namespace_def test_flask_service2_application_deployment_def
    test_flask_service2_application_service_def read_namespace_def read_namespaced_def
    then_do_def invoke_def assert_that_def split: prod.splits sum.splits)

lemma run_TestGitOps:
  "\<exists>os s'. run_class (TestGitOps X) s = (os, s') \<and>
     trace s' = trace s @
       [Read Namespace ''test-namespace'' None,
        Read Deployment ''flask'' (Some ''test-namespace''),
        Read Service ''flask'' (Some ''test-namespace''),
        Read Ingress ''flask'' (Some ''test-namespace'')] \<and>
     map fst os =
       [''test_flask_application_namespace'', ''test_flask_application_deployment'',
        ''test_flask_application_service'', ''test_flask_application_ingress''] \<and>
     list_all executed (map snd os)"
proof -
  obtain r1 s1 where t1: "test_flask_application_namespace X s = (r1, s1)"
    by (cases "test_flask_application_namespace X s")
  obtain r2 s2 where t2: "test_flask_application_deployment X s1 = (r2, s2)"
    by (cases "test_flask_application_deployment X s1")
  obtain r3 s3 where t3: "test_flask_application_service X s2 = (r3, s3)"
    by (cases "test_flask_application_service X s2")
  obtain r4 s4 where t4: "test_flask_application_ingress X s3 = (r4, s4)"
    by (cases "test_flask_application_ingress X s3")
  have "trace s4 = trace s @
       [Read Namespace ''test-namespace'' None,
        Read Deployment ''flask'' (Some ''test-namespace''),
        Read Service ''flask'' (Some ''test-namespace''),
        Read Ingress ''flask'' (Some ''test-namespace'')]"
    using trace_read_test(1) [of X s] trace_read_test(2) [of X s1]
      trace_read_test(3) [of X s2] trace_read_test(4) [of X s3]
    by (simp add: t1 t2 t3 t4)
  then show ?thesis
    by (simp add: run_class_def TestGitOps_def run_hook_def setup_class_def return_def
        t1 t2 t3 t4 executed_verdict)
qed

lemma run_TestGitOpsConditional:
  "\<exists>os s'. run_class (TestGitOpsConditional X) s = (os, s') \<and>
     trace s' = trace s @
       [Read Deployment ''flask-internal'' (Some ''test-namespace''),
        Read Service ''flask-internal'' (Some ''test-namespace''),
        Read Namespace ''service2'' None,
        Read Deployment ''flask-different-namespace'' (Some ''service2''),
        Read Service ''flask-different-namespace'' (Some ''service2'')] \<and>
     map fst os =
       [''test_flask_internal_application_deployment'', ''test_flask_internal_application_service'',
        ''test_flask_service2_application_namespace'', ''test_flask_service2_application_deployment'',
        ''test_flask_service2_application_service''] \<and>
     list_all executed (map snd os)"
proof -
  obtain r1 s1 where t1: "test_flask_internal_application_deployment X s = (r1, s1)"
    by (cases "test_flask_internal_application_deployment X s")
  obtain r2 s2 where t2: "test_flask_internal_application_service X s1 = (r2, s2)"
    by (cases "test_flask_internal_application_service X s1")
  obtain r3 s3 where t3: "test_flask_service2_application_namespace X s2 = (r3, s3)"
    by (cases "test_flask_service2_application_namespace X s2")
  obtain r4 s4 where t4: "test_flask_service2_application_deployment X s3 = (r4, s4)"
    by (cases "test_flask_service2_application_deployment X s3")
  obtain r5 s5 where t5: "test_flask_service2_application_service X s4 = (r5, s5)"
    by (cases "test_flask_service2_application_service X s4")
  have "trace s5 = trace s @
       [Read Deployment ''flask-internal'' (Some ''test-namespace''),
        Read Service ''flask-internal'' (Some ''test-namespace''),
        Read Namespace ''service2'' None,
        Read Deployment ''flask-different-namespace'' (Some ''service2''),
        Read Service ''flask-different-namespace'' (Some ''service2'')]"
    using trace_read_test(5) [of X s] trace_read_test(6) [of X s1]
      trace_read_test(7) [of X s2] trace_read_test(8) [of X s3] trace_read_test(9) [of X s4]
    by (simp add: t1 t2 t3 t4 t5)
  then show ?thesis
    by (simp add: run_class_def TestGitOpsConditional_def run_hook_def setup_class_def return_def
        t1 t2 t3 t4 t5 executed_verdict)
qed

lemma run_skipped_TestGitOpsConditional:
  "run_class (skipif True reason (TestGitOpsConditional X)) s =
     ([(''test_flask_internal_application_deployment'', Skipped reason),
       (''test_flask_internal_application_service'', Skipped reason),
       (''test_flask_service2_application_namespace'', Skipped reason),
       (''test_flask_service2_application_deployment'', Skipped reason),
       (''test_flask_service2_application_service'', Skipped reason)], s)"
  by (simp add: run_class_def skipif_def TestGitOpsConditional_def test_names_def)

lemma import_test_gitops_09:
  assumes "load_kube_config X (opt_context option) w = (Inr (), w1)"
  shows "run_module (test_gitops_09 X option) \<lparr>world = w, trace = tr\<rparr> =
    (case run_class (TestGitOps X) \<lparr>world = w1, trace = tr @ [LoadKubeConfig (opt_context option)]\<rparr> of
       (os, s1) \<Rightarrow>
         (case run_class
                 (skipif (opt_context option = Some ''kind-cluster2'' \<or>
                          opt_context option = Some ''kind-cluster3'')
                    ''only deployed on development'' (TestGitOpsConditional X)) s1 of
            (os', s2) \<Rightarrow> (Ran (os @ os'), s2)))"
  using assms
  by (simp add: run_module_def test_gitops_09_def then_do_def kube_config_def invoke_def
      return_def split: prod.splits)

text \<open>
  C3: in verification-only mode with the context kind-cluster2 (the kube configuration
  having loaded for it), none of the five tests of the conditional group is run: each is
  reported as skipped and none of their reads reaches the cluster, the calls of the run
  being the configuration load and the four reads of the unconditional group, whose four
  tests are all executed.
\<close>

theorem conditional_group_skipped_on_cluster2:
  assumes "load_kube_config X (Some ''kind-cluster2'') w = (Inr (), w1)"
  shows "\<exists>os s'.
    run_module (test_gitops_09 X \<lparr>opt_endpoint = e, opt_context = Some ''kind-cluster2''\<rparr>)
      \<lparr>world = w, trace = tr\<rparr> = (Ran os, s') \<and>
    trace s' = tr @
      [LoadKubeConfig (Some ''kind-cluster2''),
       Read Namespace ''test-namespace'' None,
       Read Deployment ''flask'' (Some ''test-namespace''),
       Read Service ''flask'' (Some ''test-namespace''),
       Read Ingress ''flask'' (Some ''test-namespace'')] \<and>
    map fst (take 4 os) =
      [''test_flask_application_namespace'', ''test_flask_application_deployment'',
       ''test_flask_application_service'', ''test_flask_application_ingress''] \<and>
    list_all executed (map snd (take 4 os)) \<and>
    drop 4 os =
      [(''test_flask_internal_application_deployment'', Skipped ''only deployed on development''),
       (''test_flask_internal_application_service'', Skipped ''only deployed on development''),
       (''test_flask_service2_application_namespace'', Skipped ''only deployed on development''),
       (''test_flask_service2_application_deployment'', Skipped ''only deployed on development''),
       (''test_flask_service2_application_service'', Skipped ''only deployed on development'')]"
proof -
  obtain os s1 where c1: "run_class (TestGitOps X)
      \<lparr>world = w1, trace = tr @ [LoadKubeConfig (Some ''kind-cluster2'')]\<rparr> = (os, s1)"
    and tr1: "trace s1 = tr @ [LoadKubeConfig (Some ''kind-cluster2'')] @
      [Read Namespace ''test-namespace'' None,
       Read Deployment ''flask'' (Some ''test-namespace''),
       Read Service ''flask'' (Some ''test-namespace''),
       Read Ingress ''flask'' (Some ''test-namespace'')]"
    and n1: "map fst os =
      [''test_flask_application_namespace'', ''test_flask_application_deployment'',
       ''test_flask_application_service'', ''test_flask_application_ingress'']"
    and e1: "list_all executed (map snd os)"
    using run_TestGitOps [of X "\<lparr>world = w1, trace = tr @ [LoadKubeConfig (Some ''kind-cluster2'')]\<rparr>"]
    by auto
  from n1 have len: "length os = 4"
    using length_map [of fst os] by simp
  show ?thesis
    using assms tr1 n1 e1 len
    by (simp add: import_test_gitops_09 c1 run_skipped_TestGitOpsConditional)
qed


theorem conditional_group_skipped_on_cluster2_witness:
  "load_kube_config (sim None) (Some ''kind-cluster2'') [(Namespace, None, ''test-namespace'')] =
     (Inr (), [(Namespace, None, ''test-namespace'')]) \<and>
   (\<exists>os s'.
    run_module (test_gitops_09 (sim None) \<lparr>opt_endpoint = None, opt_context = Some ''kind-cluster2''\<rparr>)
      \<lparr>world = [(Namespace, None, ''test-namespace'')], trace = []\<rparr> = (Ran os, s') \<and>
    trace s' =
      [LoadKubeConfig (Some ''kind-cluster2''),
       Read Namespace ''test-namespace'' None,
       Read Deployment ''flask'' (Some ''test-namespace''),
       Read Service ''flask'' (Some ''test-namespace''),
       Read Ingress ''flask'' (Some ''test-namespace'')] \<and>
    list_all executed (map snd (take 4 os)) \<and>
    drop 4 os =
      [(''test_flask_internal_application_deployment'', Skipped ''only deployed on development''),
       (''test_flask_internal_application_service'', Skipped ''only deployed on development''),
       (''test_flask_service2_application_namespace'', Skipped ''only deployed on development''),
       (''test_flask_service2_application_deployment'', Skipped ''only deployed on development''),
       (''test_flask_service2_application_service'', Skipped ''only deployed on development'')])"
proof -
  have h: "load_kube_config (sim None) (Some ''kind-cluster2'') [(Namespace, None, ''test-namespace'')] =
     (Inr (), [(Namespace, None, ''test-namespace'')])"
    by (simp add: sim_def sim_load_kube_config_def)
  show ?thesis
    using h conditional_group_skipped_on_cluster2 [OF h, of None "[]"] by auto
qed

text \<open>
  C10, as amended: for every context for which the load of the kube configuration
  returns when the module is imported, the conditional group is skipped exactly when the
  context is kind-cluster2 or kind-cluster3. For these two its five tests are reported
  as skipped and make no call; for every other such context, kind-cluster1 and an unset
  context among them, all five are executed, one read each. The four tests of the
  unconditional group are executed for every such context.
\<close>

theorem denylist_is_cluster2_and_cluster3:
  assumes "load_kube_config X ctx w = (Inr (), w1)"
  shows "\<exists>os s'.
    run_module (test_gitops_09 X \<lparr>opt_endpoint = e, opt_context = ctx\<rparr>)
      \<lparr>world = w, trace = tr\<rparr> = (Ran os, s') \<and>
    map fst os =
      [''test_flask_application_namespace'', ''test_flask_application_deployment'',
       ''test_flask_application_service'', ''test_flask_application_ingress''] @ conditional_tests \<and>
    list_all executed (map snd (take 4 os)) \<and>
    (if ctx = Some ''kind-cluster2'' \<or> ctx = Some ''kind-cluster3''
     then trace s' = tr @ [LoadKubeConfig ctx] @ unconditional_reads \<and>
          map snd (drop 4 os) = replicate 5 (Skipped ''only deployed on development'')
     else trace s' = tr @ [LoadKubeConfig ctx] @ unconditional_reads @ conditional_reads \<and>
          list_all executed (map snd (drop 4 os)))"
proof -
  obtain os s1 where c1: "run_class (TestGitOps X)
      \<lparr>world = w1, trace = tr @ [LoadKubeConfig ctx]\<rparr> = (os, s1)"
    and tr1: "trace s1 = tr @ [LoadKubeConfig ctx] @ unconditional_reads"
    and n1: "map fst os =
      [''test_flask_application_namespace'', ''test_flask_application_deployment'',
       ''test_flask_application_service'', ''test_flask_application_ingress'']"
    and e1: "list_all executed (map snd os)"
    using run_TestGitOps [of X "\<lparr>world = w1, trace = tr @ [LoadKubeConfig ctx]\<rparr>"]
    by (auto simp: unconditional_reads_def)
  from n1 have len: "length os = 4"
    using length_map [of fst os] by simp
  show ?thesis
  proof (cases "ctx = Some ''kind-cluster2'' \<or> ctx = Some ''kind-cluster3''")
    case True
    then show ?thesis
      using assms tr1 n1 e1 len
      by (simp add: import_test_gitops_09 c1 run_skipped_TestGitOpsConditional
          conditional_tests_def numeral_eq_Suc)
  next
    case False
    obtain os' s2 where c2: "run_class (TestGitOpsConditional X) s1 = (os', s2)"
      and tr2: "trace s2 = trace s1 @ conditional_reads"
      and n2: "map fst os' = conditional_tests"
      and e2: "list_all executed (map snd os')"
      using run_TestGitOpsConditional [of X s1]
      by (auto simp: conditional_reads_def conditional_tests_def)
    from False show ?thesis
      using assms tr1 n1 e1 len tr2 n2 e2
      by (simp add: import_test_gitops_09 c1 c2 skipif_def)
  qed
qed

theorem denylist_is_cluster2_and_cluster3_witness:
  "load_kube_config (sim None) (Some ''kind-cluster3'') [] = (Inr (), []) \<and>
   load_kube_config (sim None) None [] = (Inr (), []) \<and>
   (\<exists>os s'.
      run_module (test_gitops_09 (sim None) \<lparr>opt_endpoint = None, opt_context = Some ''kind-cluster3''\<rparr>)
        \<lparr>world = [], trace = []\<rparr> = (Ran os, s') \<and>
      trace s' = [LoadKubeConfig (Some ''kind-cluster3'')] @ unconditional_reads \<and>
      map snd (drop 4 os) = replicate 5 (Skipped ''only deployed on development'')) \<and>
   (\<exists>os s'.
      run_module (test_gitops_09 (sim None) \<lparr>opt_endpoint = None, opt_context = None\<rparr>)
        \<lparr>world = [], trace = []\<rparr> = (Ran os, s') \<and>
      trace s' = [LoadKubeConfig None] @ unconditional_reads @ conditional_reads \<and>
      list_all executed (map snd (drop 4 os)))"
proof -
  have h3: "load_kube_config (sim None) (Some ''kind-cluster3'') [] = (Inr (), [])"
    and h0: "load_kube_config (sim None) None [] = (Inr (), [])"
    by (simp_all add: sim_def sim_load_kube_config_def)
  show ?thesis
    using h3 h0 denylist_is_cluster2_and_cluster3 [OF h3, of None "[]"]
      denylist_is_cluster2_and_cluster3 [OF h0, of None "[]"]
    by auto
qed

text \<open>
  C10 as stated fails: at the context kind-cluster9, which is neither of the two skipped
  ones and which the kube configuration of the example world does not define, the load
  of the configuration raises when the module is imported. The run is a collection
  error: its only call is that load, and no test of either group is executed, though
  the namespace the first test would read is in the cluster.
\<close>

theorem unknown_context_counterexample:
  "Some ''kind-cluster9'' \<notin> set [Some ''kind-cluster2'', Some ''kind-cluster3''] \<and>
   run_module
     (test_gitops_09 (sim None) \<lparr>opt_endpoint = None, opt_context = Some ''kind-cluster9''\<rparr>)
     \<lparr>world = [(Namespace, None, ''test-namespace'')], trace = []\<rparr> =
     (CollectionError (Fault (OtherFault ''ConfigException'')),
      \<lparr>world = [(Namespace, None, ''test-namespace'')],
         trace = [LoadKubeConfig (Some ''kind-cluster9'')]\<rparr>)"
  by (simp add: run_module_def test_gitops_09_def then_do_def kube_config_def invoke_def
      sim_def sim_load_kube_config_def)

section \<open>The provisioning tests\<close>

lemmas sim_simps =
  sim_def sim_load_kube_config_def sim_open_safe_load_def sim_create_def sim_read_def
  sim_delete_namespace_def

lemmas harness_simps =
  then_do_def return_def assert_that_def invoke_def kube_config_def load_fixture_def
  create_namespace_def read_namespace_def create_namespaced_def read_namespaced_def
  delete_namespace_def

lemmas smoke_simps =
  test_create_namespace_def test_create_deployment_def test_create_service_def
  test_create_ingress_def teardown_class_def setup_class_def

lemma then_do_Inr: "m s = (Inr a, s1) \<Longrightarrow> then_do m f s = f a s1"
  by (simp add: then_do_def)

lemma then_do_Inl: "m s = (Inl e, s1) \<Longrightarrow> then_do m f s = (Inl e, s1)"
  by (simp add: then_do_def)

lemma invoke_Inr:
  "f (world s) = (Inr a, w) \<Longrightarrow> invoke c f s = (Inr a, \<lparr>world = w, trace = trace s @ [c]\<rparr>)"
  by (simp add: invoke_def)

lemma invoke_Inl:
  "f (world s) = (Inl e, w) \<Longrightarrow> invoke c f s = (Inl (Fault e), \<lparr>world = w, trace = trace s @ [c]\<rparr>)"
  by (simp add: invoke_def)

text \<open>
  C4: in provisioning mode (04), when no call faults, the calls made are, in this order
  and after the load of the kube configuration: for the namespace, then the deployment,
  the service and the ingress, the load of the manifest from its fixture file, one create
  call with that manifest and one read call for the same resource, by the name
  "test-namespace" for the namespace and "flask" for the other three, these in the
  namespace "test-namespace"; the teardown's delete comes last. Each test passes exactly
  when the name read back equals the expected literal and, for the namespaced kinds, the
  namespace read back equals "test-namespace".
\<close>

theorem provisioning_order:
  assumes "load_kube_config X (Some ''kind-cluster1'') w0 = (Inr (), w1)"
    and "open_safe_load X ''namespace.yaml'' w1 = (Inr b1, w2)"
    and "api_create X Namespace None b1 w2 = (Inr c1, w3)"
    and "api_read X Namespace ''test-namespace'' None w3 = (Inr r1, w4)"
    and "open_safe_load X ''deployment.yaml'' w4 = (Inr b2, w5)"
    and "api_create X Deployment (Some ''test-namespace'') b2 w5 = (Inr c2, w6)"
    and "api_read X Deployment ''flask'' (Some ''test-namespace'') w6 = (Inr r2, w7)"
    and "open_safe_load X ''service.yaml'' w7 = (Inr b3, w8)"
    and "api_create X Service (Some ''test-namespace'') b3 w8 = (Inr c3, w9)"
    and "api_read X Service ''flask'' (Some ''test-namespace'') w9 = (Inr r3, w10)"
    and "open_safe_load X ''ingress.yaml'' w10 = (Inr b4, w11)"
    and "api_create X Ingress (Some ''test-namespace'') b4 w11 = (Inr c4, w12)"
    and "api_read X Ingress ''flask'' (Some ''test-namespace'') w12 = (Inr r4, w13)"
  shows "\<exists>os s'.
    run_module (test_smoke_04 X) \<lparr>world = w0, trace = []\<rparr> = (Ran os, s') \<and>
    trace s' =
      [LoadKubeConfig (Some ''kind-cluster1''),
       LoadYaml ''namespace.yaml'', Create Namespace None b1, Read Namespace ''test-namespace'' None,
       LoadYaml ''deployment.yaml'', Create Deployment (Some ''test-namespace'') b2,
       Read Deployment ''flask'' (Some ''test-namespace''),
       LoadYaml ''service.yaml'', Create Service (Some ''test-namespace'') b3,
       Read Service ''flask'' (Some ''test-namespace''),
       LoadYaml ''ingress.yaml'', Create Ingress (Some ''test-namespace'') b4,
       Read Ingress ''flask'' (Some ''test-namespace''),
       DeleteNamespace ''test-namespace''] \<and>
    take 4 os =
      [(''test_create_namespace'',
          if Some ''test-namespace'' = metadata_name r1 then Passed else Failed AssertionError),
       (''test_create_deployment'',
          if Some ''flask'' = metadata_name r2 \<and> Some ''test-namespace'' = metadata_namespace r2
          then Passed else Failed AssertionError),
       (''test_create_service'',
          if Some ''flask'' = metadata_name r3 \<and> Some ''test-namespace'' = metadata_namespace r3
          then Passed else Failed AssertionError),
       (''test_create_ingress'',
          if Some ''flask'' = metadata_name r4 \<and> Some ''test-namespace'' = metadata_namespace r4
          then Passed else Failed AssertionError)]"
proof -
  let ?t1 = "[LoadKubeConfig (Some ''kind-cluster1'')]"
  let ?t2 = "[LoadKubeConfig (Some ''kind-cluster1''),
      LoadYaml ''namespace.yaml'',
      Create Namespace None b1,
      Read Namespace ''test-namespace'' None]"
  let ?t3 = "[LoadKubeConfig (Some ''kind-cluster1''),
      LoadYaml ''namespace.yaml'',
      Create Namespace None b1,
      Read Namespace ''test-namespace'' None,
      LoadYaml ''deployment.yaml'',
      Create Deployment (Some ''test-namespace'') b2,
      Read Deployment ''flask'' (Some ''test-namespace'')]"
  let ?t4 = "[LoadKubeConfig (Some ''kind-cluster1''),
      LoadYaml ''namespace.yaml'',
      Create Namespace None b1,
      Read Namespace ''test-namespace'' None,
      LoadYaml ''deployment.yaml'',
      Create Deployment (Some ''test-namespace'') b2,
      Read Deployment ''flask'' (Some ''test-namespace''),
      LoadYaml ''service.yaml'',
      Create Service (Some ''test-namespace'') b3,
      Read Service ''flask'' (Some ''test-namespace'')]"
  let ?t5 = "[LoadKubeConfig (Some ''kind-cluster1''),
      LoadYaml ''namespace.yaml'',
      Create Namespace None b1,
      Read Namespace ''test-namespace'' None,
      LoadYaml ''deployment.yaml'',
      Create Deployment (Some ''test-namespace'') b2,
      Read Deployment ''flask'' (Some ''test-namespace''),
      LoadYaml ''service.yaml'',
      Create Service (Some ''test-namespace'') b3,
      Read Service ''flask'' (Some ''test-namespace''),
      LoadYaml ''ingress.yaml'',
      Create Ingress (Some ''test-namespace'') b4,
      Read Ingress ''flask'' (Some ''test-namespace'')]"
  have imp: "test_smoke_04 X \<lparr>world = w0, trace = []\<rparr> =
      (Inr [Class ''TestSmoke'' (TestSmoke_04 X)], \<lparr>world = w1, trace = ?t1\<rparr>)"
    using assms(1) by (simp add: test_smoke_04_def harness_simps)
  have t1: "test_create_namespace X \<lparr>world = w1, trace = ?t1\<rparr> =
      ((if Some ''test-namespace'' = metadata_name r1 then Inr () else Inl AssertionError),
       \<lparr>world = w4, trace = ?t2\<rparr>)"
    using assms(2-4) by (simp add: smoke_simps harness_simps)
  have t2: "test_create_deployment X \<lparr>world = w4, trace = ?t2\<rparr> =
      ((if Some ''flask'' = metadata_name r2 \<and> Some ''test-namespace'' = metadata_namespace r2
        then Inr () else Inl AssertionError), \<lparr>world = w7, trace = ?t3\<rparr>)"
    using assms(5-7) by (simp add: smoke_simps harness_simps)
  have t3: "test_create_service X \<lparr>world = w7, trace = ?t3\<rparr> =
      ((if Some ''flask'' = metadata_name r3 \<and> Some ''test-namespace'' = metadata_namespace r3
        then Inr () else Inl AssertionError), \<lparr>world = w10, trace = ?t4\<rparr>)"
    using assms(8-10) by (simp add: smoke_simps harness_simps)
  have t4: "test_create_ingress X \<lparr>world = w10, trace = ?t4\<rparr> =
      ((if Some ''flask'' = metadata_name r4 \<and> Some ''test-namespace'' = metadata_namespace r4
        then Inr () else Inl AssertionError), \<lparr>world = w13, trace = ?t5\<rparr>)"
    using assms(11-13) by (simp add: smoke_simps harness_simps)
  obtain d w14 where td: "teardown_class X \<lparr>world = w13, trace = ?t5\<rparr> =
      (d, \<lparr>world = w14, trace = ?t5 @ [DeleteNamespace ''test-namespace'']\<rparr>)"
    by (cases "api_delete_namespace X ''test-namespace'' w13")
       (auto simp: teardown_class_def delete_namespace_def invoke_def)
  have v: "verdict (if c then Inr () else Inl AssertionError) =
      (if c then Passed else Failed AssertionError)" for c
    by (simp add: verdict_def)
  have rm: "run_methods (methods (TestSmoke_04 X)) \<lparr>world = w1, trace = ?t1\<rparr> =
     ([(''test_create_namespace'',
          if Some ''test-namespace'' = metadata_name r1 then Passed else Failed AssertionError),
       (''test_create_deployment'',
          if Some ''flask'' = metadata_name r2 \<and> Some ''test-namespace'' = metadata_namespace r2
          then Passed else Failed AssertionError),
       (''test_create_service'',
          if Some ''flask'' = metadata_name r3 \<and> Some ''test-namespace'' = metadata_namespace r3
          then Passed else Failed AssertionError),
       (''test_create_ingress'',
          if Some ''flask'' = metadata_name r4 \<and> Some ''test-namespace'' = metadata_namespace r4
          then Passed else Failed AssertionError)], \<lparr>world = w13, trace = ?t5\<rparr>)"
    by (simp add: TestSmoke_04_def t1 t2 t3 t4 v split del: if_split cong: if_cong)
  have hs: "run_hook ''setup_class'' (methods (TestSmoke_04 X)) s = (Inr (), s)" for s
    by (simp add: run_hook_def TestSmoke_04_def setup_class_def return_def)
  have ht: "run_hook ''teardown_class'' (methods (TestSmoke_04 X)) s = teardown_class X s" for s
    by (simp add: run_hook_def TestSmoke_04_def)
  have sk: "skip_reason (TestSmoke_04 X) = None"
    by (simp add: TestSmoke_04_def)
  show ?thesis
    by (cases d)
       (simp_all add: run_module_def imp run_class_def hs ht sk rm td
          split del: if_split cong: if_cong)
qed

theorem provisioning_order_witness:
  "\<exists>os s'.
    run_module (test_smoke_04 (sim None)) \<lparr>world = [], trace = []\<rparr> = (Ran os, s') \<and>
    trace s' =
      [LoadKubeConfig (Some ''kind-cluster1''),
       LoadYaml ''namespace.yaml'', Create Namespace None ''test-namespace'',
       Read Namespace ''test-namespace'' None,
       LoadYaml ''deployment.yaml'', Create Deployment (Some ''test-namespace'') ''flask'',
       Read Deployment ''flask'' (Some ''test-namespace''),
       LoadYaml ''service.yaml'', Create Service (Some ''test-namespace'') ''flask'',
       Read Service ''flask'' (Some ''test-namespace''),
       LoadYaml ''ingress.yaml'', Create Ingress (Some ''test-namespace'') ''flask'',
       Read Ingress ''flask'' (Some ''test-namespace''),
       DeleteNamespace ''test-namespace''] \<and>
    take 4 os =
      [(''test_create_namespace'', Passed), (''test_create_deployment'', Passed),
       (''test_create_service'', Passed), (''test_create_ingress'', Passed)]"
proof -
  let ?ns = "(Namespace, None, ''test-namespace'')"
  let ?dp = "(Deployment, Some ''test-namespace'', ''flask'')"
  let ?sv = "(Service, Some ''test-namespace'', ''flask'')"
  let ?ig = "(Ingress, Some ''test-namespace'', ''flask'')"
  let ?m1 = "\<lparr>metadata_name = Some ''test-namespace'', metadata_namespace = None\<rparr>"
  let ?m2 = "\<lparr>metadata_name = Some ''flask'', metadata_namespace = Some ''test-namespace''\<rparr>"
  have h1: "load_kube_config (sim None) (Some ''kind-cluster1'') [] = (Inr (), [])"
    by (simp add: sim_simps)
  have h2: "open_safe_load (sim None) ''namespace.yaml'' [] = (Inr ''test-namespace'', [])"
    by (simp add: sim_simps)
  have h3: "api_create (sim None) Namespace None ''test-namespace'' [] = (Inr ?m1, [?ns])"
    by (simp add: sim_simps)
  have h4: "api_read (sim None) Namespace ''test-namespace'' None [?ns] = (Inr ?m1, [?ns])"
    by (simp add: sim_simps)
  have h5: "open_safe_load (sim None) ''deployment.yaml'' [?ns] = (Inr ''flask'', [?ns])"
    by (simp add: sim_simps)
  have h6: "api_create (sim None) Deployment (Some ''test-namespace'') ''flask'' [?ns] =
      (Inr ?m2, [?dp, ?ns])"
    by (simp add: sim_simps)
  have h7: "api_read (sim None) Deployment ''flask'' (Some ''test-namespace'') [?dp, ?ns] =
      (Inr ?m2, [?dp, ?ns])"
    by (simp add: sim_simps)
  have h8: "open_safe_load (sim None) ''service.yaml'' [?dp, ?ns] = (Inr ''flask'', [?dp, ?ns])"
    by (simp add: sim_simps)
  have h9: "api_create (sim None) Service (Some ''test-namespace'') ''flask'' [?dp, ?ns] =
      (Inr ?m2, [?sv, ?dp, ?ns])"
    by (simp add: sim_simps)
  have h10: "api_read (sim None) Service ''flask'' (Some ''test-namespace'') [?sv, ?dp, ?ns] =
      (Inr ?m2, [?sv, ?dp, ?ns])"
    by (simp add: sim_simps)
  have h11: "open_safe_load (sim None) ''ingress.yaml'' [?sv, ?dp, ?ns] =
      (Inr ''flask'', [?sv, ?dp, ?ns])"
    by (simp add: sim_simps)
  have h12: "api_create (sim None) Ingress (Some ''test-namespace'') ''flask'' [?sv, ?dp, ?ns] =
      (Inr ?m2, [?ig, ?sv, ?dp, ?ns])"
    by (simp add: sim_simps)
  have h13: "api_read (sim None) Ingress ''flask'' (Some ''test-namespace'') [?ig, ?sv, ?dp, ?ns] =
      (Inr ?m2, [?ig, ?sv, ?dp, ?ns])"
    by (simp add: sim_simps)
  show ?thesis
    using provisioning_order [OF h1 h2 h3 h4 h5 h6 h7 h8 h9 h10 h11 h12 h13] by simp
qed

text \<open>
  C5: when the create call of a provisioning test faults, the manifest having loaded,
  the test raises that fault: it ends after the create call, with no read call and no
  assertion, the runner reports it as failed with the fault, and the remaining methods of
  the class are run from the state the aborted test left. An already-exists fault on the
  second create of a namespace is one such fault.
\<close>

theorem create_fault_aborts_only_its_test:
  assumes "(t, file, k, ns) \<in> set
      [(test_create_namespace X, ''namespace.yaml'', Namespace, None),
       (test_create_deployment X, ''deployment.yaml'', Deployment, Some ''test-namespace''),
       (test_create_service X, ''service.yaml'', Service, Some ''test-namespace''),
       (test_create_ingress X, ''ingress.yaml'', Ingress, Some ''test-namespace'')]"
    and "open_safe_load X file (world s) = (Inr body, w1)"
    and "api_create X k ns body w1 = (Inl f, w2)"
    and "prefix ''test'' n"
  shows "t s = (Inl (Fault f), \<lparr>world = w2, trace = trace s @ [LoadYaml file, Create k ns body]\<rparr>) \<and>
    run_methods ((n, t) # ms) s =
      (case run_methods ms \<lparr>world = w2, trace = trace s @ [LoadYaml file, Create k ns body]\<rparr> of
         (os, s') \<Rightarrow> ((n, Failed (Fault f)) # os, s'))"
proof -
  have "t s = (Inl (Fault f), \<lparr>world = w2, trace = trace s @ [LoadYaml file, Create k ns body]\<rparr>)"
    using assms(1-3)
    by (auto simp: test_create_namespace_def test_create_deployment_def test_create_service_def
        test_create_ingress_def then_do_def load_fixture_def create_namespace_def
        create_namespaced_def invoke_def)
  then show ?thesis
    using assms(4) by (simp add: verdict_def)
qed

theorem create_fault_aborts_only_its_test_witness:
  "open_safe_load (sim None) ''namespace.yaml'' [(Namespace, None, ''test-namespace'')] =
     (Inr ''test-namespace'', [(Namespace, None, ''test-namespace'')]) \<and>
   api_create (sim None) Namespace None ''test-namespace'' [(Namespace, None, ''test-namespace'')] =
     (Inl AlreadyExists, [(Namespace, None, ''test-namespace'')]) \<and>
   fst (run_methods
     [(''test_create_namespace'', test_create_namespace (sim None)),
      (''test_create_deployment'', test_create_deployment (sim None)),
      (''test_create_service'', test_create_service (sim None)),
      (''test_create_ingress'', test_create_ingress (sim None))]
     \<lparr>world = [(Namespace, None, ''test-namespace'')], trace = []\<rparr>) =
     [(''test_create_namespace'', Failed (Fault AlreadyExists)),
      (''test_create_deployment'', Passed),
      (''test_create_service'', Passed),
      (''test_create_ingress'', Passed)]"
proof -
  have h1: "(test_create_namespace (sim None), ''namespace.yaml'', Namespace, None) \<in> set
      [(test_create_namespace (sim None), ''namespace.yaml'', Namespace, None),
       (test_create_deployment (sim None), ''deployment.yaml'', Deployment, Some ''test-namespace''),
       (test_create_service (sim None), ''service.yaml'', Service, Some ''test-namespace''),
       (test_create_ingress (sim None), ''ingress.yaml'', Ingress, Some ''test-namespace'')]"
    by simp
  have h2: "open_safe_load (sim None) ''namespace.yaml''
      (world \<lparr>world = [(Namespace, None, ''test-namespace'')], trace = ([] :: string call list)\<rparr>) =
     (Inr ''test-namespace'', [(Namespace, None, ''test-namespace'')])"
    by (simp add: sim_simps)
  have h3: "api_create (sim None) Namespace None ''test-namespace'' [(Namespace, None, ''test-namespace'')] =
     (Inl AlreadyExists, [(Namespace, None, ''test-namespace'')])"
    by (simp add: sim_simps)
  have h4: "prefix ''test'' ''test_create_namespace''"
    by simp
  have rest: "fst (run_methods
     [(''test_create_deployment'', test_create_deployment (sim None)),
      (''test_create_service'', test_create_service (sim None)),
      (''test_create_ingress'', test_create_ingress (sim None))]
     \<lparr>world = [(Namespace, None, ''test-namespace'')],
        trace = [LoadYaml ''namespace.yaml'', Create Namespace None ''test-namespace'']\<rparr>) =
     [(''test_create_deployment'', Passed),
      (''test_create_service'', Passed),
      (''test_create_ingress'', Passed)]"
    by (simp add: smoke_simps harness_simps sim_simps verdict_def)
  show ?thesis
    using create_fault_aborts_only_its_test [OF h1 h2 h3 h4] h2 h3 rest
    by (simp add: verdict_def split: prod.splits)
qed

section \<open>Teardown\<close>

lemma create_tests_no_delete:
  "DeleteNamespace nm \<in> set (trace (snd (test_create_namespace X s))) \<longleftrightarrow>
     DeleteNamespace nm \<in> set (trace s)"
  "DeleteNamespace nm \<in> set (trace (snd (test_create_deployment X s))) \<longleftrightarrow>
     DeleteNamespace nm \<in> set (trace s)"
  "DeleteNamespace nm \<in> set (trace (snd (test_create_service X s))) \<longleftrightarrow>
     DeleteNamespace nm \<in> set (trace s)"
  "DeleteNamespace nm \<in> set (trace (snd (test_create_ingress X s))) \<longleftrightarrow>
     DeleteNamespace nm \<in> set (trace s)"
  by (simp_all add: smoke_simps harness_simps split: prod.splits sum.splits)

lemma teardown_class_trace:
  "trace (snd (teardown_class X s)) = trace s @ [DeleteNamespace ''test-namespace'']"
  by (simp add: teardown_class_def delete_namespace_def invoke_def split: prod.splits)

lemma kube_config_trace:
  "trace (snd (kube_config X ctx s)) = trace s @ [LoadKubeConfig ctx]"
  by (simp add: kube_config_def invoke_def split: prod.splits)

text \<open>
  The teardown of 03 and of 04: whatever the tests did, the run ends with one delete
  call for the namespace "test-namespace", the only delete call of the run.
\<close>

lemma smoke_04_deletes_once:
  assumes "load_kube_config X (Some ''kind-cluster1'') w = (Inr (), w1)"
  shows "\<exists>pre. trace (snd (run_module (test_smoke_04 X) \<lparr>world = w, trace = []\<rparr>)) =
           pre @ [DeleteNamespace ''test-namespace''] \<and> (\<forall>nm. DeleteNamespace nm \<notin> set pre)"
proof -
  let ?s1 = "\<lparr>world = w1, trace = [LoadKubeConfig (Some ''kind-cluster1'')]\<rparr>"
  obtain r2 s2 where t2: "test_create_namespace X ?s1 = (r2, s2)"
    by (cases "test_create_namespace X ?s1")
  obtain r3 s3 where t3: "test_create_deployment X s2 = (r3, s3)"
    by (cases "test_create_deployment X s2")
  obtain r4 s4 where t4: "test_create_service X s3 = (r4, s4)"
    by (cases "test_create_service X s3")
  obtain r5 s5 where t5: "test_create_ingress X s4 = (r5, s5)"
    by (cases "test_create_ingress X s4")
  obtain d s6 where t6: "teardown_class X s5 = (d, s6)"
    by (cases "teardown_class X s5")
  have nd: "\<forall>nm. DeleteNamespace nm \<notin> set (trace s5)"
    using create_tests_no_delete(1) [of _ X ?s1] create_tests_no_delete(2) [of _ X s2]
      create_tests_no_delete(3) [of _ X s3] create_tests_no_delete(4) [of _ X s4]
    by (simp add: t2 t3 t4 t5)
  have tr6: "trace s6 = trace s5 @ [DeleteNamespace ''test-namespace'']"
    using teardown_class_trace [of X s5] t6 by simp
  have "snd (run_module (test_smoke_04 X) \<lparr>world = w, trace = []\<rparr>) = s6"
    using assms
    by (cases d)
       (simp_all add: run_module_def test_smoke_04_def then_do_def return_def kube_config_def
          invoke_def run_class_def TestSmoke_04_def run_hook_def setup_class_def t2 t3 t4 t5 t6)
  then show ?thesis
    using nd tr6 by simp
qed

lemma smoke_03_deletes_once:
  assumes "load_kube_config X (Some ''kind-cluster1'') w = (Inr (), w1)"
  shows "\<exists>pre. trace (snd (run_module (test_smoke_03 X) \<lparr>world = w, trace = []\<rparr>)) =
           pre @ [DeleteNamespace ''test-namespace''] \<and> (\<forall>nm. DeleteNamespace nm \<notin> set pre)"
proof -
  let ?s1 = "\<lparr>world = w1, trace = [LoadKubeConfig (Some ''kind-cluster1'')]\<rparr>"
  obtain r2 s2 where t2: "test_create_namespace X ?s1 = (r2, s2)"
    by (cases "test_create_namespace X ?s1")
  obtain r3 s3 where t3: "test_create_deployment X s2 = (r3, s3)"
    by (cases "test_create_deployment X s2")
  obtain d s6 where t6: "teardown_class X s3 = (d, s6)"
    by (cases "teardown_class X s3")
  have nd: "\<forall>nm. DeleteNamespace nm \<notin> set (trace s3)"
    using create_tests_no_delete(1) [of _ X ?s1] create_tests_no_delete(2) [of _ X s2]
    by (simp add: t2 t3)
  have tr6: "trace s6 = trace s3 @ [DeleteNamespace ''test-namespace'']"
    using teardown_class_trace [of X s3] t6 by simp
  have "snd (run_module (test_smoke_03 X) \<lparr>world = w, trace = []\<rparr>) = s6"
    using assms
    by (cases d)
       (simp_all add: run_module_def test_smoke_03_def then_do_def return_def kube_config_def
          invoke_def run_class_def TestSmoke_03_def run_hook_def setup_class_def t2 t3 t6)
  then show ?thesis
    using nd tr6 by simp
qed

text \<open>
  C7, on gitops-flask-kubernetes/tests/test_smoke.py: the run of this module makes no
  delete call at all. Its \<^verbatim>\<open>teardown_class\<close> is a function of the module, which the
  runner neither collects as a test nor calls as a hook of the class, so the namespace
  the test created stays in the cluster.
\<close>

theorem smoke_gfk_never_deletes:
  "DeleteNamespace nm \<notin> set (trace (snd (run_module (test_smoke_gfk X) \<lparr>world = w, trace = []\<rparr>)))"
proof -
  obtain r s1 where k: "kube_config X (Some ''kind-cluster1'') \<lparr>world = w, trace = []\<rparr> = (r, s1)"
    by (cases "kube_config X (Some ''kind-cluster1'') \<lparr>world = w, trace = []\<rparr>")
  have tr1: "trace s1 = [LoadKubeConfig (Some ''kind-cluster1'')]"
    using kube_config_trace [of X "Some ''kind-cluster1''" "\<lparr>world = w, trace = []\<rparr>"] k by simp
  show ?thesis
  proof (cases r)
    case (Inl e)
    then show ?thesis
      using k tr1 by (simp add: run_module_def test_smoke_gfk_def then_do_def)
  next
    case (Inr u)
    obtain r2 s2 where t: "test_create_namespace X s1 = (r2, s2)"
      by (cases "test_create_namespace X s1")
    have "DeleteNamespace nm \<notin> set (trace s2)"
      using create_tests_no_delete(1) [of nm X s1] t tr1 by simp
    then show ?thesis
      using Inr k t
      by (simp add: run_module_def test_smoke_gfk_def then_do_def return_def run_class_def
          TestSmoke_gfk_def run_hook_def setup_class_def)
  qed
qed

theorem smoke_gfk_never_deletes_witness:
  "run_module (test_smoke_gfk (sim None)) \<lparr>world = [], trace = []\<rparr> =
     (Ran [(''test_create_namespace'', Passed)],
      \<lparr>world = [(Namespace, None, ''test-namespace'')],
         trace = [LoadKubeConfig (Some ''kind-cluster1''), LoadYaml ''namespace.yaml'',
                  Create Namespace None ''test-namespace'', Read Namespace ''test-namespace'' None]\<rparr>) \<and>
   DeleteNamespace ''test-namespace'' \<notin>
     set (trace (snd (run_module (test_smoke_gfk (sim None)) \<lparr>world = [], trace = []\<rparr>)))"
proof -
  have "run_module (test_smoke_gfk (sim None)) \<lparr>world = [], trace = []\<rparr> =
     (Ran [(''test_create_namespace'', Passed)],
      \<lparr>world = [(Namespace, None, ''test-namespace'')],
         trace = [LoadKubeConfig (Some ''kind-cluster1''), LoadYaml ''namespace.yaml'',
                  Create Namespace None ''test-namespace'', Read Namespace ''test-namespace'' None]\<rparr>)"
    by (simp add: run_module_def test_smoke_gfk_def run_class_def TestSmoke_gfk_def run_hook_def
        smoke_simps harness_simps sim_simps verdict_def)
  then show ?thesis
    using smoke_gfk_never_deletes [of "''test-namespace''" "sim None" "[]"] by simp
qed

section \<open>The end-to-end checks\<close>

text \<open>
  C9: for every endpoint E, the index check makes exactly one call, a GET of http://E/,
  and the cluster check exactly one, a GET of http://E/cluster, whatever the answer. When
  that call faults the check ends with the fault, nothing being tried again; when it
  answers, the index check passes exactly when the content contains "hello", and the
  cluster check exactly when the content decodes and the text matches the pattern.
\<close>

theorem end_to_end_single_request:
  "trace (snd (test_index X (Some E) s)) = trace s @ [HttpGet (''http://'' @ E @ ''/'')] \<and>
   trace (snd (test_cluster X (Some E) s)) = trace s @ [HttpGet (''http://'' @ E @ ''/cluster'')] \<and>
   (requests_get X (''http://'' @ E @ ''/'') (world s) = (Inl f, w) \<longrightarrow>
      test_index X (Some E) s =
        (Inl (Fault f), \<lparr>world = w, trace = trace s @ [HttpGet (''http://'' @ E @ ''/'')]\<rparr>)) \<and>
   (requests_get X (''http://'' @ E @ ''/cluster'') (world s) = (Inl f, w) \<longrightarrow>
      test_cluster X (Some E) s =
        (Inl (Fault f), \<lparr>world = w, trace = trace s @ [HttpGet (''http://'' @ E @ ''/cluster'')]\<rparr>)) \<and>
   (requests_get X (''http://'' @ E @ ''/'') (world s) = (Inr c, w) \<longrightarrow>
      fst (test_index X (Some E) s) =
        (if contains ''hello'' c then Inr () else Inl AssertionError)) \<and>
   (requests_get X (''http://'' @ E @ ''/cluster'') (world s) = (Inr c, w) \<longrightarrow>
      fst (test_cluster X (Some E) s) =
        (case bytes_decode X c of
           Inl e \<Rightarrow> Inl (Fault e)
         | Inr d \<Rightarrow> if re_match cluster_pattern d then Inr () else Inl AssertionError))"
  by (simp add: test_index_def test_cluster_def format_str_def http_get_def decode_def
      then_do_def invoke_def assert_that_def split: prod.splits sum.splits)

theorem end_to_end_single_request_witness:
  "requests_get (sim None) ''http://localhost/'' [] = (Inl ConnectionRefused, []) \<and>
   test_index (sim None) (Some ''localhost'') \<lparr>world = [], trace = []\<rparr> =
     (Inl (Fault ConnectionRefused), \<lparr>world = [], trace = [HttpGet ''http://localhost/'']\<rparr>) \<and>
   requests_get (sim (Some (startup Map.empty))) ''http://localhost/cluster'' [] =
     (Inr ''This is service1 in cluster cluster1'', []) \<and>
   fst (test_cluster (sim (Some (startup Map.empty))) (Some ''localhost'') \<lparr>world = [], trace = []\<rparr>) =
     Inr () \<and>
   trace (snd (test_cluster (sim (Some (startup Map.empty))) (Some ''localhost'')
      \<lparr>world = [], trace = []\<rparr>)) = [HttpGet ''http://localhost/cluster'']"
proof -
  have h1: "requests_get (sim None) (''http://'' @ ''localhost'' @ ''/'')
      (world \<lparr>world = [], trace = ([] :: string call list)\<rparr>) = (Inl ConnectionRefused, [])"
    by (simp add: sim_def sim_requests_get_def)
  have h2: "requests_get (sim (Some (startup Map.empty))) (''http://'' @ ''localhost'' @ ''/cluster'')
      (world \<lparr>world = [], trace = ([] :: string call list)\<rparr>) =
       (Inr ''This is service1 in cluster cluster1'', [])"
    by (simp add: sim_def sim_requests_get_def get_cluster cluster_def startup_def getenv_def)
  have d: "bytes_decode (sim (Some (startup Map.empty))) ''This is service1 in cluster cluster1'' =
       Inr ''This is service1 in cluster cluster1''"
    by (simp add: sim_def sim_bytes_decode_def)
  have m: "re_match cluster_pattern ''This is service1 in cluster cluster1''"
    by (simp add: cluster_pattern_def is_word_def)
  have a: "test_index (sim None) (Some ''localhost'') \<lparr>world = [], trace = []\<rparr> =
     (Inl (Fault ConnectionRefused), \<lparr>world = [], trace = [HttpGet ''http://localhost/'']\<rparr>)"
    using end_to_end_single_request
      [of "sim None" "''localhost''" "\<lparr>world = [], trace = []\<rparr>" ConnectionRefused "[]"] h1
    by simp
  have b: "fst (test_cluster (sim (Some (startup Map.empty))) (Some ''localhost'') \<lparr>world = [], trace = []\<rparr>) =
     Inr () \<and>
   trace (snd (test_cluster (sim (Some (startup Map.empty))) (Some ''localhost'')
      \<lparr>world = [], trace = []\<rparr>)) = [HttpGet ''http://localhost/cluster'']"
    using end_to_end_single_request
      [of "sim (Some (startup Map.empty))" "''localhost''" "\<lparr>world = [], trace = []\<rparr>" _ "[]"
          "''This is service1 in cluster cluster1''"] h2 d m
    by simp
  show ?thesis
    using a b h1 h2 by simp
qed


end
